theory Spec2Isabelle
  imports Main "HOL-Library.Sublist"
begin

section \<open>The launcher script \<^verbatim>\<open>mqtt-mcp-stdio.py\<close>\<close>

text \<open>
  The script imports the class \<^verbatim>\<open>MQTTMCP\<close> from the package \<^verbatim>\<open>mqtt_mcp\<close>, and, when it
  is the main program, constructs one instance and drives its coroutine
  \<^verbatim>\<open>run_async(transport="stdio")\<close> with \<^verbatim>\<open>asyncio.run\<close>.

  The package is not part of the repository. It enters the model as a record of three
  behaviours (what the import does, what the constructor does on given arguments, what
  awaiting \<^verbatim>\<open>run_async\<close> does on given arguments); the script is a function of the
  process it runs in, and yields the list of actions it performs on the outside world,
  in order, together with the way it ends. The process carries the two standard
  streams as the interpreter set them up: \<^verbatim>\<open>sys.stdout\<close> and \<^verbatim>\<open>sys.stderr\<close> are
  \<^verbatim>\<open>None\<close> when their file descriptor was closed at startup, and a write to an open
  stream can fail. The standard-library imports (\<^verbatim>\<open>asyncio\<close>, \<^verbatim>\<open>os\<close>, \<^verbatim>\<open>sys\<close>) are
  taken to succeed, and what the package itself writes is outside the model.
\<close>

subsection \<open>Values, exceptions, streams, actions\<close>

text \<open>The only Python value the script passes to the package is a string.\<close>

datatype pyval = Str string

type_synonym args = "pyval list"

type_synonym kwargs = "(string \<times> pyval) list"

text \<open>
  The \<^verbatim>\<open>code\<close> of a \<^verbatim>\<open>SystemExit\<close>: \<^verbatim>\<open>None\<close>, an integer (\<^verbatim>\<open>True\<close> and \<^verbatim>\<open>False\<close> are
  the integers 1 and 0), or any other object, given by the text \<^verbatim>\<open>str\<close> makes of it.
\<close>

datatype exit_code = NoCode | IntCode int | ObjCode string

text \<open>
  Exceptions, as far as the script's control flow tells them apart:
  \<open>ImportError\<close> is an instance of \<^verbatim>\<open>ImportError\<close> or of a subclass of it (such as
  \<^verbatim>\<open>ModuleNotFoundError\<close>), which the clause \<^verbatim>\<open>except ImportError\<close> matches;
  \<open>SystemExit c\<close> is what \<^verbatim>\<open>sys.exit(c)\<close> raises;
  \<open>Error cls\<close> is an instance of any other class derived from \<^verbatim>\<open>Exception\<close>, named
  by its class.
\<close>

datatype exn = ImportError | SystemExit exit_code | Error string

datatype stream = Stdout | Stderr

text \<open>
  An open text stream: how it buffers, and whether the file behind it takes what is
  written or fails every write with an \<^verbatim>\<open>OSError\<close> of the given class (a full device,
  a closed pipe, a descriptor opened for reading).
\<close>

datatype buffering = Unbuffered | LineBuffered | BlockBuffered

datatype medium = Accepts | Rejects string

record textio =
  buffering :: buffering
  medium :: medium

text \<open>The server handle is opaque to the script.\<close>

type_synonym handle = nat

text \<open>
  What the script does to the outside: a line handed to a stream by a \<^verbatim>\<open>print\<close> that
  returned, a \<^verbatim>\<open>print\<close> on a stream that raised, a call of \<^verbatim>\<open>sys.exit\<close>, a call of the
  constructor \<^verbatim>\<open>MQTTMCP\<close>, and a call of \<^verbatim>\<open>run_async\<close> on a handle, the last two with
  their positional and keyword arguments.
\<close>

datatype event =
    Print stream string
  | PrintRaised stream
  | SysExit int
  | Construct args kwargs
  | RunAsync handle args kwargs

text \<open>
  A call returns a value, raises, or never returns (\<open>Hang\<close>: the server's run loop
  serves until the process is terminated from outside).
\<close>

datatype 'a result = Val 'a | Exc exn | Hang

type_synonym 'a prog = "event list \<times> 'a result"

definition actions :: "'a prog \<Rightarrow> event list" where
  "actions m = fst m"

definition outcome :: "'a prog \<Rightarrow> 'a result" where
  "outcome m = snd m"

subsection \<open>The external package and the process\<close>

record mqtt_mcp =
  import_MQTTMCP :: "unit result"
  MQTTMCP :: "args \<Rightarrow> kwargs \<Rightarrow> handle result"
  run_async :: "handle \<Rightarrow> args \<Rightarrow> kwargs \<Rightarrow> unit result"

text \<open>
  The process: its command line, its environment, the value of \<^verbatim>\<open>__name__\<close> in the
  script's module, the installed package, and the values of \<^verbatim>\<open>sys.stdout\<close> and
  \<^verbatim>\<open>sys.stderr\<close> (\<open>None\<close> for Python's \<^verbatim>\<open>None\<close>).
\<close>

record process =
  argv :: "string list"
  environ :: "(string \<times> string) list"
  dunder_name :: string
  package :: mqtt_mcp
  sys_stdout :: "textio option"
  sys_stderr :: "textio option"

text \<open>The value of \<^verbatim>\<open>sys.stdout\<close> or \<^verbatim>\<open>sys.stderr\<close>, with the name of the stream.\<close>

definition sys_stream :: "process \<Rightarrow> stream \<Rightarrow> (stream \<times> textio) option" where
  "sys_stream p f =
     (case (case f of Stdout \<Rightarrow> sys_stdout p | Stderr \<Rightarrow> sys_stderr p) of
        None \<Rightarrow> None
      | Some t \<Rightarrow> Some (f, t))"

subsection \<open>Statements\<close>

definition ret :: "'a \<Rightarrow> 'a prog" where
  "ret v = ([], Val v)"

text \<open>Sequencing: the second statement runs only if the first one returns.\<close>

definition seq :: "'a prog \<Rightarrow> ('a \<Rightarrow> 'b prog) \<Rightarrow> 'b prog" where
  "seq m f =
     (case snd m of
        Val v \<Rightarrow> (fst m @ fst (f v), snd (f v))
      | Exc e \<Rightarrow> (fst m, Exc e)
      | Hang \<Rightarrow> (fst m, Hang))"

text \<open>\<^verbatim>\<open>try: body / except ImportError: handler\<close>\<close>

definition try_except_ImportError :: "'a prog \<Rightarrow> 'a prog \<Rightarrow> 'a prog" where
  "try_except_ImportError body handler =
     (case snd body of
        Exc ImportError \<Rightarrow> (fst body @ fst handler, snd handler)
      | _ \<Rightarrow> body)"

text \<open>
  Writing one line (a text that ends with a newline and fits the buffer) to an open
  stream. When the file behind the stream fails the write, a block-buffered stream
  keeps the line and the call returns; a line-buffered or unbuffered stream raises the
  \<^verbatim>\<open>OSError\<close>.
\<close>

definition write_line :: "stream \<Rightarrow> textio \<Rightarrow> string \<Rightarrow> unit prog" where
  "write_line f t s =
     (case medium t of
        Accepts \<Rightarrow> ([Print f s], Val ())
      | Rejects cls \<Rightarrow>
          (if buffering t = BlockBuffered then ([Print f s], Val ())
           else ([PrintRaised f], Exc (Error cls))))"

text \<open>
  \<^verbatim>\<open>print(msg, file=x)\<close>: when \<^verbatim>\<open>x\<close> is \<^verbatim>\<open>None\<close> the stream is \<^verbatim>\<open>sys.stdout\<close>, and when
  that is \<^verbatim>\<open>None\<close> too nothing is done; otherwise the message and a newline are written.
\<close>

definition print_to :: "process \<Rightarrow> (stream \<times> textio) option \<Rightarrow> string \<Rightarrow> unit prog" where
  "print_to p file msg =
     (case (case file of None \<Rightarrow> sys_stream p Stdout | Some x \<Rightarrow> Some x) of
        None \<Rightarrow> ret ()
      | Some (f, t) \<Rightarrow> write_line f t (msg @ [CHR 0x0A]))"

definition sys_exit :: "int \<Rightarrow> 'a prog" where
  "sys_exit c = ([SysExit c], Exc (SystemExit (IntCode c)))"

definition from_mqtt_mcp_server_import_MQTTMCP :: "mqtt_mcp \<Rightarrow> unit prog" where
  "from_mqtt_mcp_server_import_MQTTMCP lib = ([], import_MQTTMCP lib)"

definition call_MQTTMCP :: "mqtt_mcp \<Rightarrow> args \<Rightarrow> kwargs \<Rightarrow> handle prog" where
  "call_MQTTMCP lib a k = ([Construct a k], MQTTMCP lib a k)"

definition await_run_async :: "mqtt_mcp \<Rightarrow> handle \<Rightarrow> args \<Rightarrow> kwargs \<Rightarrow> unit prog" where
  "await_run_async lib server a k = ([RunAsync server a k], run_async lib server a k)"

text \<open>
  \<^verbatim>\<open>asyncio.run(coro)\<close> drives the coroutine to its end on a fresh event loop and
  returns what it returns or raises what it raises.
\<close>

definition asyncio_run :: "'a prog \<Rightarrow> 'a prog" where
  "asyncio_run coro = coro"

subsection \<open>The script\<close>

definition diagnostic :: string where
  "diagnostic = ''Error: mqtt-mcp not found. Install with: uv pip install mqtt-mcp''"

definition stdio_kwargs :: kwargs where
  "stdio_kwargs = [(''transport'', Str ''stdio'')]"

text \<open>
  \<^verbatim>\<open>
  async def main():
      server = MQTTMCP()
      await server.run_async(transport="stdio")
  \<close>
\<close>

definition main :: "process \<Rightarrow> unit prog" where
  "main p =
     seq (call_MQTTMCP (package p) [] [])
       (\<lambda>server. await_run_async (package p) server [] stdio_kwargs)"

text \<open>
  \<^verbatim>\<open>
  try:
      from mqtt_mcp.server import MQTTMCP
  except ImportError:
      print("Error: mqtt-mcp not found. Install with: uv pip install mqtt-mcp", file=sys.stderr)
      sys.exit(1)
  \<close>
\<close>

definition resolve_dependency :: "process \<Rightarrow> unit prog" where
  "resolve_dependency p =
     try_except_ImportError
       (from_mqtt_mcp_server_import_MQTTMCP (package p))
       (seq (print_to p (sys_stream p Stderr) diagnostic) (\<lambda>_. sys_exit 1))"

text \<open>
  The module body: the guarded import, then
  \<^verbatim>\<open>
  if __name__ == "__main__":
      asyncio.run(main())
  \<close>
\<close>

definition launcher :: "process \<Rightarrow> unit prog" where
  "launcher p =
     seq (resolve_dependency p)
       (\<lambda>_. if dunder_name p = ''__main__'' then asyncio_run (main p) else ret ())"

subsection \<open>Reading a run\<close>

fun is_construct :: "event \<Rightarrow> bool" where
  "is_construct (Construct _ _) = True"
| "is_construct _ = False"

fun is_run_async :: "event \<Rightarrow> bool" where
  "is_run_async (RunAsync _ _ _) = True"
| "is_run_async _ = False"

fun is_print :: "event \<Rightarrow> bool" where
  "is_print (Print _ _) = True"
| "is_print _ = False"

fun is_sys_exit :: "event \<Rightarrow> bool" where
  "is_sys_exit (SysExit _) = True"
| "is_sys_exit _ = False"

text \<open>A \<^verbatim>\<open>print\<close> on the stream, whether it returned or raised.\<close>

fun touches :: "stream \<Rightarrow> event \<Rightarrow> bool" where
  "touches f (Print g _) = (f = g)"
| "touches f (PrintRaised g) = (f = g)"
| "touches f _ = False"

text \<open>The text handed to a stream, in order.\<close>

fun written :: "stream \<Rightarrow> event list \<Rightarrow> string" where
  "written f [] = []"
| "written f (Print g s # es) = (if f = g then s @ written f es else written f es)"
| "written f (_ # es) = written f es"

subsection \<open>The exit status\<close>

text \<open>
  The status the interpreter (CPython on a platform whose C \<^verbatim>\<open>long\<close> has 64 bits and
  whose exit status has 8) ends the process with when the main script ends in the given
  way.

  A script that runs to its end gives 0. An escaping \<^verbatim>\<open>SystemExit\<close> gives 0 for the code
  \<^verbatim>\<open>None\<close>, the low eight bits of an integer code (255 for an integer outside the range
  of \<^verbatim>\<open>long\<close>), and 1 for any other code, after writing that object to \<^verbatim>\<open>sys.stderr\<close>.
  Any other escaping exception gives 1, after a traceback written to \<^verbatim>\<open>sys.stderr\<close>.
\<close>

fun status_of_code :: "exit_code \<Rightarrow> int" where
  "status_of_code NoCode = 0"
| "status_of_code (IntCode n) =
     (if - (2 ^ 63) \<le> n \<and> n < 2 ^ 63 then n mod 256 else 255)"
| "status_of_code (ObjCode s) = 1"

fun status_of :: "'a result \<Rightarrow> int option" where
  "status_of (Val v) = Some 0"
| "status_of (Exc (SystemExit c)) = Some (status_of_code c)"
| "status_of (Exc ImportError) = Some 1"
| "status_of (Exc (Error cls)) = Some 1"
| "status_of Hang = None"

text \<open>Whether the interpreter writes to \<^verbatim>\<open>sys.stderr\<close> at the end.\<close>

fun reported :: "'a result \<Rightarrow> bool" where
  "reported (Val v) = False"
| "reported (Exc (SystemExit NoCode)) = False"
| "reported (Exc (SystemExit (IntCode n))) = False"
| "reported (Exc (SystemExit (ObjCode s))) = True"
| "reported (Exc ImportError) = True"
| "reported (Exc (Error cls)) = True"
| "reported Hang = False"

text \<open>
  Text written to an open, buffered stream whose file fails the write stays in the
  buffer of the stream.
\<close>

definition stuck :: "process \<Rightarrow> stream \<Rightarrow> bool" where
  "stuck p f =
     (case sys_stream p f of
        None \<Rightarrow> False
      | Some (g, t) \<Rightarrow> medium t \<noteq> Accepts \<and> buffering t \<noteq> Unbuffered)"

text \<open>
  On its way out the interpreter flushes both standard streams; when text is stuck in
  one of them the flush fails, and the status is 120 whatever it would have been.
\<close>

definition flush_fails :: "process \<Rightarrow> 'a prog \<Rightarrow> bool" where
  "flush_fails p r =
     ((list_ex (touches Stdout) (actions r) \<and> stuck p Stdout) \<or>
      ((list_ex (touches Stderr) (actions r) \<or> reported (outcome r)) \<and> stuck p Stderr))"

definition exit_status :: "process \<Rightarrow> 'a prog \<Rightarrow> int option" where
  "exit_status p r =
     (case status_of (outcome r) of
        None \<Rightarrow> None
      | Some c \<Rightarrow> Some (if flush_fails p r then 120 else c))"

section \<open>Example processes\<close>

text \<open>
  A test double of the package whose import succeeds, whose class is constructible with
  no arguments only, and whose \<^verbatim>\<open>run_async\<close> takes the transport keyword only and ends
  the way \<open>r\<close> says.
\<close>

definition mock_package :: "unit result \<Rightarrow> mqtt_mcp" where
  "mock_package r =
     \<lparr> import_MQTTMCP = Val (),
       MQTTMCP = (\<lambda>a k. if a = [] \<and> k = [] then Val 0 else Exc (Error ''TypeError'')),
       run_async = (\<lambda>server a k.
         if a = [] \<and> map fst k = [''transport''] then r else Exc (Error ''TypeError'')) \<rparr>"

text \<open>The package is not installed: the import raises \<^verbatim>\<open>ModuleNotFoundError\<close>.\<close>

definition absent_package :: mqtt_mcp where
  "absent_package = (mock_package Hang) \<lparr> import_MQTTMCP := Exc ImportError \<rparr>"

text \<open>The package is installed and its module fails to initialise.\<close>

definition broken_package :: mqtt_mcp where
  "broken_package = (mock_package Hang) \<lparr> import_MQTTMCP := Exc (Error ''SyntaxError'') \<rparr>"

text \<open>The constructor ends the program with \<^verbatim>\<open>sys.exit(0)\<close>.\<close>

definition quitting_package :: mqtt_mcp where
  "quitting_package =
     (mock_package Hang) \<lparr> MQTTMCP := (\<lambda>a k. Exc (SystemExit (IntCode 0))) \<rparr>"

text \<open>
  The script started as a program by an MCP client: standard output is a pipe, the
  error stream takes what is written.
\<close>

definition script_process :: "mqtt_mcp \<Rightarrow> process" where
  "script_process lib =
     \<lparr> argv = [''mqtt-mcp-stdio.py''], environ = [], dunder_name = ''__main__'',
       package = lib,
       sys_stdout = Some \<lparr> buffering = BlockBuffered, medium = Accepts \<rparr>,
       sys_stderr = Some \<lparr> buffering = LineBuffered, medium = Accepts \<rparr> \<rparr>"

text \<open>Scenario A: the dependency is absent.\<close>

definition absent_process :: process where
  "absent_process = script_process absent_package"

text \<open>Scenario A with the error stream on a full device (\<^verbatim>\<open>2>/dev/full\<close>).\<close>

definition full_stderr_process :: process where
  "full_stderr_process =
     absent_process
       \<lparr> sys_stderr := Some \<lparr> buffering = LineBuffered, medium = Rejects ''OSError'' \<rparr> \<rparr>"

text \<open>Scenario A with file descriptor 2 closed (\<^verbatim>\<open>2>&-\<close>).\<close>

definition closed_stderr_process :: process where
  "closed_stderr_process = absent_process \<lparr> sys_stderr := None \<rparr>"

text \<open>Scenario B: the dependency is present and its run operation returns at once.\<close>

definition idle_process :: process where
  "idle_process = script_process (mock_package (Val ()))"

text \<open>The run loop raises.\<close>

definition failing_process :: process where
  "failing_process = script_process (mock_package (Exc (Error ''RuntimeError'')))"

text \<open>The constructor raises.\<close>

definition misconfigured_process :: process where
  "misconfigured_process =
     script_process ((mock_package Hang) \<lparr> MQTTMCP := (\<lambda>a k. Exc (Error ''ValueError'')) \<rparr>)"

definition quitting_process :: process where
  "quitting_process = script_process quitting_package"

text \<open>The package's module raises while it is loaded.\<close>

definition broken_process :: process where
  "broken_process = script_process broken_package"

text \<open>Scenario B with a command line and an environment.\<close>

definition configured_process :: process where
  "configured_process =
     idle_process \<lparr> argv := [''mqtt-mcp-stdio.py'', ''--transport'', ''sse''],
       environ := [(''MQTT_HOST'', ''broker.local'')] \<rparr>"

text \<open>The script loaded by an \<^verbatim>\<open>import\<close> of another program.\<close>

definition imported_process :: process where
  "imported_process = idle_process \<lparr> dunder_name := ''mqtt_mcp_stdio'' \<rparr>"

section \<open>Conditions on a process\<close>




text \<open>
  The stream the handler's \<^verbatim>\<open>print\<close> writes the diagnostic to: \<^verbatim>\<open>sys.stderr\<close>, or
  \<^verbatim>\<open>sys.stdout\<close> when \<^verbatim>\<open>sys.stderr\<close> is \<^verbatim>\<open>None\<close>, or none.
\<close>

definition diagnostic_stream :: "process \<Rightarrow> (stream \<times> textio) option" where
  "diagnostic_stream p =
     (case sys_stream p Stderr of
        None \<Rightarrow> sys_stream p Stdout
      | Some x \<Rightarrow> Some x)"


text \<open>The diagnostic stays in the buffer of its stream.\<close>

definition diagnostic_stuck :: "process \<Rightarrow> bool" where
  "diagnostic_stuck p =
     (case diagnostic_stream p of
        None \<Rightarrow> False
      | Some (f, t) \<Rightarrow> medium t \<noteq> Accepts \<and> buffering t \<noteq> Unbuffered)"

section \<open>The runs of the script, case by case\<close>

lemma seq_Val [simp]: "seq (es, Val v) f = (es @ fst (f v), snd (f v))"
  by (simp add: seq_def)

lemma seq_Exc [simp]: "seq (es, Exc e) f = (es, Exc e)"
  by (simp add: seq_def)

lemma seq_Hang [simp]: "seq (es, Hang) f = (es, Hang)"
  by (simp add: seq_def)

lemma print_to_None:
  assumes "diagnostic_stream p = None"
  shows "print_to p (sys_stream p Stderr) msg = ([], Val ())"
  using assms
  by (simp add: diagnostic_stream_def print_to_def ret_def split: option.splits)

lemma print_to_Some:
  assumes "diagnostic_stream p = Some (f, t)"
  shows "print_to p (sys_stream p Stderr) msg = write_line f t (msg @ [CHR 0x0A])"
  using assms
  by (auto simp add: diagnostic_stream_def print_to_def split: option.splits)

lemma seq_sys_exit: "snd (seq m (\<lambda>_. sys_exit c)) \<noteq> Val v"
  by (cases "snd m") (simp_all add: seq_def sys_exit_def)

lemma seq_unless_Val:
  assumes "\<And>v. snd m \<noteq> Val v"
  shows "seq m k = m"
  using assms by (cases m; cases "snd m") (simp_all add: seq_def)

lemma launcher_handler:
  assumes "import_MQTTMCP (package p) = Exc ImportError"
  shows "launcher p = seq (print_to p (sys_stream p Stderr) diagnostic) (\<lambda>_. sys_exit 1)"
proof -
  from assms have "resolve_dependency p =
      seq (print_to p (sys_stream p Stderr) diagnostic) (\<lambda>_. sys_exit 1)"
    by (simp add: resolve_dependency_def try_except_ImportError_def
        from_mqtt_mcp_server_import_MQTTMCP_def)
  then show ?thesis
    by (simp add: launcher_def seq_unless_Val seq_sys_exit)
qed

lemma launcher_ImportError_silent:
  assumes "import_MQTTMCP (package p) = Exc ImportError" and "diagnostic_stream p = None"
  shows "launcher p = ([SysExit 1], Exc (SystemExit (IntCode 1)))"
  using assms
  by (simp add: launcher_handler print_to_None sys_exit_def)

lemma launcher_ImportError_printed:
  assumes "import_MQTTMCP (package p) = Exc ImportError"
    and "diagnostic_stream p = Some (f, t)"
    and "medium t = Accepts \<or> buffering t = BlockBuffered"
  shows "launcher p =
    ([Print f (diagnostic @ [CHR 0x0A]), SysExit 1], Exc (SystemExit (IntCode 1)))"
  using assms
  by (auto simp add: launcher_handler print_to_Some write_line_def sys_exit_def
      split: medium.splits)

lemma launcher_ImportError_print_raises:
  assumes "import_MQTTMCP (package p) = Exc ImportError"
    and "diagnostic_stream p = Some (f, t)"
    and "medium t = Rejects cls" and "buffering t \<noteq> BlockBuffered"
  shows "launcher p = ([PrintRaised f], Exc (Error cls))"
  using assms
  by (simp add: launcher_handler print_to_Some write_line_def)

lemma launcher_import_raises:
  assumes "import_MQTTMCP (package p) = Exc e" and "e \<noteq> ImportError"
  shows "launcher p = ([], Exc e)"
  using assms
  by (cases e)
    (simp_all add: launcher_def resolve_dependency_def try_except_ImportError_def
      from_mqtt_mcp_server_import_MQTTMCP_def)

lemma launcher_import_hangs:
  assumes "import_MQTTMCP (package p) = Hang"
  shows "launcher p = ([], Hang)"
  using assms
  by (simp add: launcher_def resolve_dependency_def try_except_ImportError_def
      from_mqtt_mcp_server_import_MQTTMCP_def)

lemma launcher_imported:
  assumes "import_MQTTMCP (package p) = Val ()" and "dunder_name p \<noteq> ''__main__''"
  shows "launcher p = ([], Val ())"
  using assms
  by (simp add: launcher_def resolve_dependency_def try_except_ImportError_def
      from_mqtt_mcp_server_import_MQTTMCP_def ret_def)

lemma launcher_main:
  assumes "import_MQTTMCP (package p) = Val ()" and "dunder_name p = ''__main__''"
  shows "launcher p = main p"
  using assms
  by (simp add: launcher_def resolve_dependency_def try_except_ImportError_def
      from_mqtt_mcp_server_import_MQTTMCP_def asyncio_run_def)

lemma main_constructed:
  assumes "MQTTMCP (package p) [] [] = Val server"
  shows "main p =
    ([Construct [] [], RunAsync server [] stdio_kwargs],
     run_async (package p) server [] stdio_kwargs)"
  using assms
  by (simp add: main_def call_MQTTMCP_def await_run_async_def)

lemma main_constructor_raises:
  assumes "MQTTMCP (package p) [] [] = Exc e"
  shows "main p = ([Construct [] []], Exc e)"
  using assms
  by (simp add: main_def call_MQTTMCP_def)

lemma main_constructor_hangs:
  assumes "MQTTMCP (package p) [] [] = Hang"
  shows "main p = ([Construct [] []], Hang)"
  using assms
  by (simp add: main_def call_MQTTMCP_def)

text \<open>Every run of the script is one of nine.\<close>

lemma launcher_cases [case_names silent printed print_raises import_raises import_hangs
    imported constructor_raises constructor_hangs running]:
  obtains
    "import_MQTTMCP (package p) = Exc ImportError" "diagnostic_stream p = None"
    "launcher p = ([SysExit 1], Exc (SystemExit (IntCode 1)))"
  | f t where "import_MQTTMCP (package p) = Exc ImportError"
      "diagnostic_stream p = Some (f, t)" "medium t = Accepts \<or> buffering t = BlockBuffered"
      "launcher p =
        ([Print f (diagnostic @ [CHR 0x0A]), SysExit 1], Exc (SystemExit (IntCode 1)))"
  | f t cls where "import_MQTTMCP (package p) = Exc ImportError"
      "diagnostic_stream p = Some (f, t)" "medium t = Rejects cls"
      "buffering t \<noteq> BlockBuffered" "launcher p = ([PrintRaised f], Exc (Error cls))"
  | e where "import_MQTTMCP (package p) = Exc e" "e \<noteq> ImportError"
      "launcher p = ([], Exc e)"
  | "import_MQTTMCP (package p) = Hang" "launcher p = ([], Hang)"
  | "import_MQTTMCP (package p) = Val ()" "dunder_name p \<noteq> ''__main__''"
      "launcher p = ([], Val ())"
  | e where "import_MQTTMCP (package p) = Val ()" "dunder_name p = ''__main__''"
      "MQTTMCP (package p) [] [] = Exc e" "launcher p = ([Construct [] []], Exc e)"
  | "import_MQTTMCP (package p) = Val ()" "dunder_name p = ''__main__''"
      "MQTTMCP (package p) [] [] = Hang" "launcher p = ([Construct [] []], Hang)"
  | server where "import_MQTTMCP (package p) = Val ()" "dunder_name p = ''__main__''"
      "MQTTMCP (package p) [] [] = Val server"
      "launcher p =
        ([Construct [] [], RunAsync server [] stdio_kwargs],
         run_async (package p) server [] stdio_kwargs)"
proof (cases "import_MQTTMCP (package p)")
  case (Exc e)
  show ?thesis
  proof (cases "e = ImportError")
    case False
    with Exc show ?thesis using that(4) launcher_import_raises by blast
  next
    case True
    with Exc have imp: "import_MQTTMCP (package p) = Exc ImportError" by simp
    show ?thesis
    proof (cases "diagnostic_stream p")
      case None
      with imp show ?thesis using that(1) launcher_ImportError_silent by blast
    next
      case (Some x)
      then obtain f t where ft: "diagnostic_stream p = Some (f, t)" by (cases x) simp
      show ?thesis
      proof (cases "medium t = Accepts \<or> buffering t = BlockBuffered")
        case True
        with imp ft show ?thesis using that(2) launcher_ImportError_printed by blast
      next
        case False
        then obtain cls where "medium t = Rejects cls" "buffering t \<noteq> BlockBuffered"
          by (cases "medium t") auto
        with imp ft show ?thesis using that(3) launcher_ImportError_print_raises by blast
      qed
    qed
  qed
next
  case Hang
  then show ?thesis using that(5) launcher_import_hangs by blast
next
  case (Val u)
  then have imp: "import_MQTTMCP (package p) = Val ()" by simp
  show ?thesis
  proof (cases "dunder_name p = ''__main__''")
    case False
    with imp show ?thesis using that(6) launcher_imported by blast
  next
    case True
    with imp have m: "launcher p = main p" by (rule launcher_main)
    show ?thesis
    proof (cases "MQTTMCP (package p) [] []")
      case (Val server)
      with imp True m show ?thesis using that(9) main_constructed by metis
    next
      case (Exc e)
      with imp True m show ?thesis using that(7) main_constructor_raises by metis
    next
      case Hang
      with imp True m show ?thesis using that(8) main_constructor_hangs by metis
    qed
  qed
qed

lemma mentions_package: "sublist ''mqtt-mcp'' diagnostic"
proof -
  have "diagnostic = ''Error: '' @ ''mqtt-mcp'' @ '' not found. Install with: uv pip install mqtt-mcp''"
    by (simp add: diagnostic_def)
  then show ?thesis by (metis sublist_appendI)
qed

lemma mentions_remedy: "sublist ''uv pip install mqtt-mcp'' diagnostic"
proof -
  have "diagnostic = ''Error: mqtt-mcp not found. Install with: '' @ ''uv pip install mqtt-mcp'' @ []"
    by (simp add: diagnostic_def)
  then show ?thesis by (metis sublist_appendI)
qed

text \<open>The stream of the diagnostic, and what is stuck in it.\<close>

lemma diagnostic_stream_Some:
  assumes "diagnostic_stream p = Some (f, t)"
  shows "sys_stream p f = Some (f, t)"
    and "f = Stdout \<Longrightarrow> sys_stderr p = None"
    and "f = Stderr \<Longrightarrow> sys_stderr p = Some t"
  using assms
  by (auto simp add: diagnostic_stream_def sys_stream_def split: option.splits stream.splits)

lemma diagnostic_stream_None:
  assumes "diagnostic_stream p = None"
  shows "sys_stderr p = None"
  using assms
  by (auto simp add: diagnostic_stream_def sys_stream_def split: option.splits)

lemma diagnostic_stream_Stderr:
  assumes "sys_stderr p = Some t"
  shows "diagnostic_stream p = Some (Stderr, t)"
  using assms by (simp add: diagnostic_stream_def sys_stream_def)

lemma stuck_diagnostic:
  assumes "diagnostic_stream p = Some (f, t)"
  shows "stuck p f = (medium t \<noteq> Accepts \<and> buffering t \<noteq> Unbuffered)"
  using diagnostic_stream_Some(1) [OF assms] by (simp add: stuck_def)

lemma not_stuck_closed:
  assumes "sys_stderr p = None"
  shows "\<not> stuck p Stderr"
  using assms by (simp add: stuck_def sys_stream_def)

lemma flush_fails_diagnostic:
  assumes "diagnostic_stream p = Some (f, t)" and "touches f ev"
    and "\<And>g. g \<noteq> f \<Longrightarrow> \<not> list_ex (touches g) (ev # es)"
  shows "flush_fails p (ev # es, r) = (medium t \<noteq> Accepts \<and> buffering t \<noteq> Unbuffered)"
proof (cases f)
  case Stdout
  with assms(1) have "\<not> stuck p Stderr"
    using diagnostic_stream_Some(2) not_stuck_closed by blast
  with Stdout assms(2) stuck_diagnostic [OF assms(1)] show ?thesis
    by (simp add: flush_fails_def actions_def)
next
  case Stderr
  then have "\<not> list_ex (touches Stdout) (ev # es)"
    using assms(3) [of Stdout] by simp
  with Stderr assms(2) stuck_diagnostic [OF assms(1)] show ?thesis
    by (simp add: flush_fails_def actions_def)
qed

lemma flush_fails_quiet:
  assumes "\<not> list_ex (touches Stdout) es" and "\<not> list_ex (touches Stderr) es"
  shows "flush_fails p (es, r) = (reported r \<and> stuck p Stderr)"
  using assms by (simp add: flush_fails_def actions_def outcome_def)

text \<open>The exit status of the runs in which the import raises \<^verbatim>\<open>ImportError\<close>.\<close>

lemma exit_status_missing:
  assumes "import_MQTTMCP (package p) = Exc ImportError"
  shows "exit_status p (launcher p) = Some (if diagnostic_stuck p then 120 else 1)"
proof (cases p rule: launcher_cases)
  case silent
  then show ?thesis
    by (simp add: exit_status_def outcome_def flush_fails_quiet diagnostic_stuck_def)
next
  case (printed f t)
  have "flush_fails p (launcher p) = (medium t \<noteq> Accepts \<and> buffering t \<noteq> Unbuffered)"
    unfolding printed(4) using printed(2)
    by (rule flush_fails_diagnostic) (cases f; simp)+
  with printed show ?thesis
    by (simp add: exit_status_def outcome_def diagnostic_stuck_def)
next
  case (print_raises f t cls)
  have "flush_fails p (launcher p) = (medium t \<noteq> Accepts \<and> buffering t \<noteq> Unbuffered)"
    unfolding print_raises(5) using print_raises(2)
    by (rule flush_fails_diagnostic) (cases f; simp)+
  with print_raises show ?thesis
    by (simp add: exit_status_def outcome_def diagnostic_stuck_def)
qed (use assms in simp_all)


lemmas script_defs =
  launcher_def resolve_dependency_def try_except_ImportError_def
  from_mqtt_mcp_server_import_MQTTMCP_def print_to_def write_line_def sys_stream_def
  sys_exit_def ret_def asyncio_run_def main_def call_MQTTMCP_def await_run_async_def
  stdio_kwargs_def

lemmas example_defs =
  script_process_def mock_package_def absent_package_def broken_package_def
  quitting_package_def absent_process_def full_stderr_process_def
  closed_stderr_process_def idle_process_def failing_process_def
  misconfigured_process_def quitting_process_def broken_process_def
  configured_process_def imported_process_def

lemmas status_defs =
  exit_status_def flush_fails_def stuck_def sys_stream_def actions_def outcome_def

section \<open>The claims\<close>

text \<open>
  C1. If the import of the external server succeeds and the script is the main
  program, the script calls the constructor exactly once; every call of the run
  operation, in any run, has no positional argument and the single keyword argument
  \<^verbatim>\<open>transport="stdio"\<close>; and when the constructor returns an instance, the script
  calls the run operation of that instance exactly once.
\<close>

theorem constructs_once_runs_once_over_stdio:
  "(\<forall>server a k. RunAsync server a k \<in> set (actions (launcher p)) \<longrightarrow>
      a = [] \<and> k = [(''transport'', Str ''stdio'')]) \<and>
   (import_MQTTMCP (package p) = Val () \<and> dunder_name p = ''__main__'' \<longrightarrow>
      filter is_construct (actions (launcher p)) = [Construct [] []] \<and>
      (\<forall>server. MQTTMCP (package p) [] [] = Val server \<longrightarrow>
         filter is_run_async (actions (launcher p)) =
           [RunAsync server [] [(''transport'', Str ''stdio'')]]))"
  by (cases p rule: launcher_cases) (simp_all add: actions_def stdio_kwargs_def)

theorem constructs_once_runs_once_over_stdio_witness:
  "import_MQTTMCP (package idle_process) = Val () \<and>
   dunder_name idle_process = ''__main__'' \<and>
   MQTTMCP (package idle_process) [] [] = Val 0 \<and>
   filter is_construct (actions (launcher idle_process)) = [Construct [] []] \<and>
   filter is_run_async (actions (launcher idle_process)) =
     [RunAsync 0 [] [(''transport'', Str ''stdio'')]]"
proof -
  have h: "import_MQTTMCP (package idle_process) = Val ()"
    "dunder_name idle_process = ''__main__''"
    "MQTTMCP (package idle_process) [] [] = Val 0"
    by (simp_all add: idle_process_def script_process_def mock_package_def)
  from constructs_once_runs_once_over_stdio [of idle_process] h show ?thesis
    by blast
qed

text \<open>
  C2, as the code has it. If the import of the external server raises
  \<^verbatim>\<open>ImportError\<close>, the script never calls the constructor or the run operation, and the
  diagnostic it prints names the package \<^verbatim>\<open>mqtt-mcp\<close> and the remedy
  \<^verbatim>\<open>uv pip install mqtt-mcp\<close>. If moreover the error stream is open and takes the
  write, the script writes that one line to the error stream, writes nothing else,
  calls \<^verbatim>\<open>sys.exit(1)\<close>, and the process ends with exit status 1.
\<close>

theorem missing_dependency_diagnostic_and_exit:
  assumes "import_MQTTMCP (package p) = Exc ImportError"
  shows "filter is_construct (actions (launcher p)) = [] \<and>
    filter is_run_async (actions (launcher p)) = [] \<and>
    sublist ''mqtt-mcp'' diagnostic \<and>
    sublist ''uv pip install mqtt-mcp'' diagnostic \<and>
    (\<forall>t. sys_stderr p = Some t \<and> medium t = Accepts \<longrightarrow>
       actions (launcher p) = [Print Stderr (diagnostic @ [CHR 0x0A]), SysExit 1] \<and>
       written Stderr (actions (launcher p)) = diagnostic @ [CHR 0x0A] \<and>
       written Stdout (actions (launcher p)) = [] \<and>
       outcome (launcher p) = Exc (SystemExit (IntCode 1)) \<and>
       exit_status p (launcher p) = Some 1)"
proof -
  have quiet: "filter is_construct (actions (launcher p)) = [] \<and>
      filter is_run_async (actions (launcher p)) = []"
    using assms by (cases p rule: launcher_cases) (simp_all add: actions_def)
  have good: "actions (launcher p) = [Print Stderr (diagnostic @ [CHR 0x0A]), SysExit 1] \<and>
      written Stderr (actions (launcher p)) = diagnostic @ [CHR 0x0A] \<and>
      written Stdout (actions (launcher p)) = [] \<and>
      outcome (launcher p) = Exc (SystemExit (IntCode 1)) \<and>
      exit_status p (launcher p) = Some 1"
    if t: "sys_stderr p = Some t" "medium t = Accepts" for t
  proof -
    from t(1) have s: "diagnostic_stream p = Some (Stderr, t)"
      by (rule diagnostic_stream_Stderr)
    with assms t(2) have "launcher p =
        ([Print Stderr (diagnostic @ [CHR 0x0A]), SysExit 1], Exc (SystemExit (IntCode 1)))"
      by (simp add: launcher_ImportError_printed)
    moreover from s t(2) have "\<not> diagnostic_stuck p"
      by (simp add: diagnostic_stuck_def)
    ultimately show ?thesis
      using exit_status_missing [OF assms] by (simp add: actions_def outcome_def)
  qed
  from quiet good mentions_package mentions_remedy show ?thesis
    by blast
qed

theorem missing_dependency_diagnostic_and_exit_witness:
  "import_MQTTMCP (package absent_process) = Exc ImportError \<and>
   sys_stderr absent_process = Some \<lparr> buffering = LineBuffered, medium = Accepts \<rparr> \<and>
   written Stderr (actions (launcher absent_process)) =
     ''Error: mqtt-mcp not found. Install with: uv pip install mqtt-mcp'' @ [CHR 0x0A] \<and>
   filter is_sys_exit (actions (launcher absent_process)) = [SysExit 1] \<and>
   exit_status absent_process (launcher absent_process) = Some 1 \<and>
   filter is_construct (actions (launcher absent_process)) = []"
proof -
  have h: "import_MQTTMCP (package absent_process) = Exc ImportError"
    by (simp add: example_defs)
  have s: "sys_stderr absent_process = Some \<lparr> buffering = LineBuffered, medium = Accepts \<rparr>"
    by (simp add: example_defs)
  have m: "medium \<lparr> buffering = LineBuffered, medium = Accepts \<rparr> = Accepts"
    by simp
  from missing_dependency_diagnostic_and_exit [OF h] s m
  have "actions (launcher absent_process) = [Print Stderr (diagnostic @ [CHR 0x0A]), SysExit 1] \<and>
      written Stderr (actions (launcher absent_process)) = diagnostic @ [CHR 0x0A] \<and>
      exit_status absent_process (launcher absent_process) = Some 1 \<and>
      filter is_construct (actions (launcher absent_process)) = []"
    by blast
  with h s show ?thesis
    by (simp add: diagnostic_def)
qed

text \<open>
  C2, as the claim states it, fails in two ways. With the error stream on a full
  device the \<^verbatim>\<open>print\<close> raises: no diagnostic is written, \<^verbatim>\<open>sys.exit(1)\<close> is not reached,
  and the exit status is 120. With file descriptor 2 closed \<^verbatim>\<open>sys.stderr\<close> is \<^verbatim>\<open>None\<close>
  and the diagnostic goes to standard output.
\<close>

theorem diagnostic_lost_or_misdirected:
  "import_MQTTMCP (package full_stderr_process) = Exc ImportError \<and>
   actions (launcher full_stderr_process) = [PrintRaised Stderr] \<and>
   outcome (launcher full_stderr_process) = Exc (Error ''OSError'') \<and>
   exit_status full_stderr_process (launcher full_stderr_process) = Some 120 \<and>
   import_MQTTMCP (package closed_stderr_process) = Exc ImportError \<and>
   actions (launcher closed_stderr_process) =
     [Print Stdout (diagnostic @ [CHR 0x0A]), SysExit 1] \<and>
   written Stderr (actions (launcher closed_stderr_process)) = []"
  by (simp add: script_defs example_defs status_defs seq_def)




text \<open>
  C4. In every run, each call of the server's constructor has no positional and no
  keyword argument.
\<close>

theorem constructor_gets_no_arguments:
  "set (filter is_construct (actions (launcher p))) \<subseteq> {Construct [] []}"
  by (cases p rule: launcher_cases) (simp_all add: actions_def)

theorem constructor_gets_no_arguments_witness:
  "filter is_construct (actions (launcher idle_process)) \<noteq> [] \<and>
   set (filter is_construct (actions (launcher idle_process))) \<subseteq> {Construct [] []}"
proof -
  have "filter is_construct (actions (launcher idle_process)) = [Construct [] []]"
    by (simp add: script_defs example_defs actions_def seq_def)
  then have "filter is_construct (actions (launcher idle_process)) \<noteq> []"
    by simp
  with constructor_gets_no_arguments [of idle_process] show ?thesis
    by blast
qed





text \<open>
  C8, as the code has it. The script prints to standard output in one situation
  only: the import raises \<^verbatim>\<open>ImportError\<close> while \<^verbatim>\<open>sys.stderr\<close> is \<^verbatim>\<open>None\<close>, and \<^verbatim>\<open>print\<close>
  falls back on \<^verbatim>\<open>sys.stdout\<close>. In every run where the error stream is open, or the
  import does not raise \<^verbatim>\<open>ImportError\<close>, the script does not print to standard output.
  In every run, a line the script prints is the diagnostic, printed because the import
  raised \<^verbatim>\<open>ImportError\<close>, and it is printed to the error stream unless \<^verbatim>\<open>sys.stderr\<close> is
  \<^verbatim>\<open>None\<close>.
\<close>

theorem stdout_untouched_unless_stderr_closed:
  "(sys_stderr p \<noteq> None \<or> import_MQTTMCP (package p) \<noteq> Exc ImportError \<longrightarrow>
      \<not> list_ex (touches Stdout) (actions (launcher p)) \<and>
      written Stdout (actions (launcher p)) = []) \<and>
   (\<forall>f s. Print f s \<in> set (actions (launcher p)) \<longrightarrow>
      s = diagnostic @ [CHR 0x0A] \<and>
      import_MQTTMCP (package p) = Exc ImportError \<and>
      (f = Stderr \<or> sys_stderr p = None))"
proof (cases p rule: launcher_cases)
  case (printed f t)
  then show ?thesis
    using diagnostic_stream_Some(2) [OF printed(2)]
    by (cases f) (simp_all add: actions_def)
next
  case (print_raises f t cls)
  then show ?thesis
    using diagnostic_stream_Some(2) [OF print_raises(2)]
    by (cases f) (simp_all add: actions_def)
qed (simp_all add: actions_def)

theorem stdout_untouched_unless_stderr_closed_witness:
  "sys_stderr absent_process \<noteq> None \<and>
   Print Stderr (diagnostic @ [CHR 0x0A]) \<in> set (actions (launcher absent_process)) \<and>
   import_MQTTMCP (package absent_process) = Exc ImportError \<and>
   \<not> list_ex (touches Stdout) (actions (launcher absent_process)) \<and>
   written Stdout (actions (launcher absent_process)) = [] \<and>
   import_MQTTMCP (package idle_process) \<noteq> Exc ImportError \<and>
   written Stdout (actions (launcher idle_process)) = []"
proof -
  have a: "sys_stderr absent_process \<noteq> None"
    "import_MQTTMCP (package idle_process) \<noteq> Exc ImportError"
    by (simp_all add: example_defs)
  have b: "Print Stderr (diagnostic @ [CHR 0x0A]) \<in> set (actions (launcher absent_process))"
    by (simp add: script_defs example_defs actions_def seq_def)
  from stdout_untouched_unless_stderr_closed [of absent_process] a(1) b
  have c: "import_MQTTMCP (package absent_process) = Exc ImportError \<and>
      \<not> list_ex (touches Stdout) (actions (launcher absent_process)) \<and>
      written Stdout (actions (launcher absent_process)) = []"
    by blast
  from stdout_untouched_unless_stderr_closed [of idle_process] a(2)
  have d: "written Stdout (actions (launcher idle_process)) = []"
    by blast
  from a b c d show ?thesis
    by blast
qed

text \<open>
  C8, as the claim states it, fails: with file descriptor 2 closed at startup and the
  package absent, the script prints the diagnostic to standard output.
\<close>

theorem diagnostic_on_stdout:
  "import_MQTTMCP (package closed_stderr_process) = Exc ImportError \<and>
   sys_stderr closed_stderr_process = None \<and>
   Print Stdout (diagnostic @ [CHR 0x0A]) \<in> set (actions (launcher closed_stderr_process)) \<and>
   written Stdout (actions (launcher closed_stderr_process)) =
     ''Error: mqtt-mcp not found. Install with: uv pip install mqtt-mcp'' @ [CHR 0x0A]"
  by (simp add: script_defs example_defs actions_def seq_def diagnostic_def)

text \<open>
  C9. When the import raises an exception that is not an \<^verbatim>\<open>ImportError\<close>, the handler
  does not run: the script performs no action at all (no diagnostic, no call of
  \<^verbatim>\<open>sys.exit\<close>, no construction) and ends with that same exception.
\<close>

theorem other_import_exception_propagates:
  assumes "import_MQTTMCP (package p) = Exc e" and "e \<noteq> ImportError"
  shows "outcome (launcher p) = Exc e \<and> actions (launcher p) = [] \<and>
    written Stderr (actions (launcher p)) = [] \<and>
    filter is_sys_exit (actions (launcher p)) = []"
proof -
  from assms have "launcher p = ([], Exc e)"
    by (rule launcher_import_raises)
  then show ?thesis
    by (simp add: actions_def outcome_def)
qed

theorem other_import_exception_propagates_witness:
  "import_MQTTMCP (package broken_process) = Exc (Error ''SyntaxError'') \<and>
   Error ''SyntaxError'' \<noteq> ImportError \<and>
   outcome (launcher broken_process) = Exc (Error ''SyntaxError'') \<and>
   actions (launcher broken_process) = []"
proof -
  have h: "import_MQTTMCP (package broken_process) = Exc (Error ''SyntaxError'')"
    by (simp add: broken_process_def script_process_def broken_package_def)
  have d: "Error ''SyntaxError'' \<noteq> ImportError"
    by simp
  from h d other_import_exception_propagates [OF h d] show ?thesis
    by blast
qed

text \<open>
  C10. When \<^verbatim>\<open>__name__\<close> is not \<^verbatim>\<open>"__main__"\<close> (the script is imported as a module),
  the script makes no constructor call and no run call.
\<close>

theorem no_server_unless_main:
  assumes "dunder_name p \<noteq> ''__main__''"
  shows "filter is_construct (actions (launcher p)) = [] \<and>
    filter is_run_async (actions (launcher p)) = []"
  using assms by (cases p rule: launcher_cases) (simp_all add: actions_def)

theorem no_server_unless_main_witness:
  "dunder_name imported_process \<noteq> ''__main__'' \<and>
   import_MQTTMCP (package imported_process) = Val () \<and>
   filter is_construct (actions (launcher imported_process)) = [] \<and>
   filter is_run_async (actions (launcher imported_process)) = [] \<and>
   filter is_construct (actions (launcher idle_process)) = [Construct [] []]"
proof -
  have h: "dunder_name imported_process \<noteq> ''__main__''"
    by (simp add: imported_process_def)
  have i: "import_MQTTMCP (package imported_process) = Val ()"
    by (simp add: imported_process_def idle_process_def script_process_def mock_package_def)
  have m: "filter is_construct (actions (launcher idle_process)) = [Construct [] []]"
    by (simp add: script_defs example_defs actions_def seq_def)
  from h i m no_server_unless_main [OF h] show ?thesis
    by blast
qed

end
